theory Spec2Isabelle
  imports Main
begin

section \<open>Values, rows and errors\<close>

text \<open>
  A cell is a value held in a column of a row or in a field of a document, as the drivers
  hand it to Python: \<^verbatim>\<open>None\<close>, an \<^verbatim>\<open>int\<close> or a \<^verbatim>\<open>str\<close>.
  A row (an asyncpg \<^verbatim>\<open>Record\<close>, a Mongo document) is read by the code with
  \<^verbatim>\<open>.get(key)\<close> only, so it is an association list from column names to cells.
\<close>

datatype cell = CNull | CInt int | CStr string

type_synonym row = "(string \<times> cell) list"

text \<open>\<^verbatim>\<open>row.get(key)\<close>: the value, or \<^verbatim>\<open>None\<close> for a missing key.\<close>

definition get :: "row \<Rightarrow> string \<Rightarrow> cell" where
  "get r k = (case map_of r k of None \<Rightarrow> CNull | Some c \<Rightarrow> c)"

text \<open>
  Every exception class the source raises, and the failures of the external libraries that
  the model lets through: \<open>StoreError\<close> is any error of the database driver (asyncpg,
  motor), \<open>InvalidId\<close> is bson's rejection of a malformed \<^verbatim>\<open>ObjectId\<close>,
  \<open>SearcherError\<close> is whatever the searcher task raised.
\<close>

datatype error =
    PyException string
  | ValueError string
  | TypeError
  | FileNotFoundError string
  | StoreError string
  | InvalidId string
  | SearcherError string
  | MultipleTablesForCTS
  | InsertException
  | DeletedMultipleActiveSearches string
  | ActiveSearchNotFound string

text \<open>
  Python truthiness of an optional string argument: \<^verbatim>\<open>None\<close> and the empty string are
  falsy. The lookups take \<^verbatim>\<open>search_id\<close>, \<^verbatim>\<open>artifact_type\<close> and
  \<^verbatim>\<open>artifact_value\<close> as keyword arguments that default to \<^verbatim>\<open>None\<close>.
\<close>

definition truthy :: "string option \<Rightarrow> bool" where
  "truthy x = (case x of None \<Rightarrow> False | Some s \<Rightarrow> s \<noteq> [])"

text \<open>\<^verbatim>\<open>f"{x}"\<close> for an optional string.\<close>

definition fmt :: "string option \<Rightarrow> string" where
  "fmt x = (case x of None \<Rightarrow> ''None'' | Some s \<Rightarrow> s)"

text \<open>The single quote character, which the SQL texts put around every interpolated value.\<close>

definition sq :: string where
  "sq = [CHR 0x27]"

section \<open>The relational backend (util/db.py)\<close>

text \<open>
  An instance of \<^verbatim>\<open>DB\<close>: the configured CTS id, and the database server it talks to.
  The server is outside the repository, so it is a parameter: \<open>connect_error\<close> is the
  message of the error \<^verbatim>\<open>asyncpg.connect\<close> raises, if it raises; \<open>fetch\<close>,
  \<open>fetchval\<close> and \<open>execute\<close> give the server's answer to a statement, which is
  a function of the statement text and of the arguments bound to \<^verbatim>\<open>$1\<close>,
  \<^verbatim>\<open>$2\<close>, ... and of nothing else.
\<close>

record db =
  cts_id :: string
  connect_error :: "string option"
  fetch :: "string \<Rightarrow> cell list \<Rightarrow> string + row list"
  fetchval :: "string \<Rightarrow> cell list \<Rightarrow> string + cell"
  execute :: "string \<Rightarrow> cell list \<Rightarrow> string + string"

text \<open>
  What a call leaves behind: the temporary files on the server, the connections that are
  open, the statements sent to the database, and the tasks handed to the event loop
  with \<^verbatim>\<open>asyncio.create_task\<close>; \<open>clock\<close> is what
  \<^verbatim>\<open>datetime.datetime.now()\<close> reads. A searcher task carries the artifact type and
  value, the file payload and the search id its done-callback was given.
\<close>

record file_payload =
  path :: string
  content_transfer_encoding :: "string option"

datatype task =
    SearcherTask "string option" "string option" "file_payload option" string
  | RemoveActiveSearch string
  | StoreSearchResults string "string option" "string option" string

record world =
  files :: "string list"
  open_conns :: "nat list"
  next_conn :: nat
  issued :: "(string \<times> cell list) list"
  pending :: "task list"
  clock :: string

definition store_error :: "string + 'a \<Rightarrow> error + 'a" where
  "store_error r = (case r of Inl m \<Rightarrow> Inl (StoreError m) | Inr x \<Rightarrow> Inr x)"

text \<open>The three calls on an open connection: the statement is recorded, the server answers.\<close>

definition conn_fetch :: "db \<Rightarrow> string \<Rightarrow> cell list \<Rightarrow> world \<Rightarrow> (error + row list) \<times> world" where
  "conn_fetch self q args w = (store_error (fetch self q args), w\<lparr>issued := issued w @ [(q, args)]\<rparr>)"

definition conn_fetchval :: "db \<Rightarrow> string \<Rightarrow> cell list \<Rightarrow> world \<Rightarrow> (error + cell) \<times> world" where
  "conn_fetchval self q args w = (store_error (fetchval self q args), w\<lparr>issued := issued w @ [(q, args)]\<rparr>)"

definition conn_execute :: "db \<Rightarrow> string \<Rightarrow> cell list \<Rightarrow> world \<Rightarrow> (error + string) \<times> world" where
  "conn_execute self q args w = (store_error (execute self q args), w\<lparr>issued := issued w @ [(q, args)]\<rparr>)"

text \<open>
  \<^verbatim>\<open>handle_db_connection\<close>: connect, run the wrapped function inside
  \<^verbatim>\<open>try\<close>, close the connection in \<^verbatim>\<open>finally\<close>, return what the
  function returned. When \<^verbatim>\<open>asyncpg.connect\<close> raises, nothing was opened and the
  error leaves the wrapper at once. A connection is known by its number, the next free
  one. The wrapped function receives the connection and the caller's arguments, and may
  do to the world whatever it likes. Closing is taken to succeed.
\<close>

definition open_conn :: "world \<Rightarrow> world" where
  "open_conn w = w\<lparr>open_conns := next_conn w # open_conns w, next_conn := Suc (next_conn w)\<rparr>"

definition close_conn :: "nat \<Rightarrow> world \<Rightarrow> world" where
  "close_conn c w = w\<lparr>open_conns := removeAll c (open_conns w)\<rparr>"

definition handle_db_connection ::
  "(db \<Rightarrow> nat \<Rightarrow> 'a \<Rightarrow> world \<Rightarrow> (error + 'b) \<times> world) \<Rightarrow> db \<Rightarrow> 'a \<Rightarrow> world \<Rightarrow> (error + 'b) \<times> world" where
  "handle_db_connection func self args w =
     (case connect_error self of
        Some m \<Rightarrow> (Inl (StoreError m), w)
      | None \<Rightarrow>
          (let conn = next_conn w;
               (execution_results, w') = func self conn args (open_conn w)
           in (execution_results, close_conn conn w')))"

text \<open>The message of the exception both relational lookups raise.\<close>

definition db_missing_params :: string where
  "db_missing_params = ''search_id or artifact_typea and artifact_value are required parameters''"

definition active_by_id_sql :: "db \<Rightarrow> string option \<Rightarrow> string" where
  "active_by_id_sql self search_id =
     ''SELECT * FROM '' @ cts_id self @ ''_active_searches WHERE search_id = '' @ sq @ fmt search_id @ sq @ '';''"

definition active_by_artifact_sql :: "db \<Rightarrow> string option \<Rightarrow> string option \<Rightarrow> string" where
  "active_by_artifact_sql self artifact_type artifact_value =
     ''SELECT * FROM '' @ cts_id self @ ''_active_searches WHERE artifact_type = '' @ sq @ fmt artifact_type
       @ sq @ '' AND artifact_value = '' @ sq @ fmt artifact_value @ sq @ '';''"

definition results_by_id_sql :: "db \<Rightarrow> string option \<Rightarrow> string" where
  "results_by_id_sql self search_id =
     ''SELECT * FROM '' @ cts_id self @ ''_results WHERE search_id = '' @ sq @ fmt search_id @ sq @ '';''"

definition results_by_artifact_sql :: "db \<Rightarrow> string option \<Rightarrow> string option \<Rightarrow> string" where
  "results_by_artifact_sql self artifact_type artifact_value =
     ''SELECT * FROM '' @ cts_id self @ ''_results WHERE artifact_type = '' @ sq @ fmt artifact_type
       @ sq @ '' AND artifact_value = '' @ sq @ fmt artifact_value @ sq @ '';''"

text \<open>
  The bodies of the two lookups, before the decorator. The arguments are the triple
  \<open>(search_id, artifact_type, artifact_value)\<close>.
\<close>

definition search_for_active_search_body ::
  "db \<Rightarrow> nat \<Rightarrow> string option \<times> string option \<times> string option \<Rightarrow> world \<Rightarrow> (error + row list) \<times> world" where
  "search_for_active_search_body self conn args w =
     (case args of (search_id, artifact_type, artifact_value) \<Rightarrow>
        if \<not> truthy search_id \<and> (\<not> truthy artifact_type \<or> \<not> truthy artifact_value)
        then (Inl (PyException db_missing_params), w)
        else if truthy search_id
        then conn_fetch self (active_by_id_sql self search_id) [] w
        else conn_fetch self (active_by_artifact_sql self artifact_type artifact_value) [] w)"

definition search_for_results_body ::
  "db \<Rightarrow> nat \<Rightarrow> string option \<times> string option \<times> string option \<Rightarrow> world \<Rightarrow> (error + row list) \<times> world" where
  "search_for_results_body self conn args w =
     (case args of (search_id, artifact_type, artifact_value) \<Rightarrow>
        if \<not> truthy search_id \<and> (\<not> truthy artifact_type \<or> \<not> truthy artifact_value)
        then (Inl (PyException db_missing_params), w)
        else if truthy search_id
        then conn_fetch self (results_by_id_sql self search_id) [] w
        else conn_fetch self (results_by_artifact_sql self artifact_type artifact_value) [] w)"

definition search_for_active_search ::
  "db \<Rightarrow> string option \<Rightarrow> string option \<Rightarrow> string option \<Rightarrow> world \<Rightarrow> (error + row list) \<times> world" where
  "search_for_active_search self search_id artifact_type artifact_value =
     handle_db_connection search_for_active_search_body self (search_id, artifact_type, artifact_value)"

definition search_for_results ::
  "db \<Rightarrow> string option \<Rightarrow> string option \<Rightarrow> string option \<Rightarrow> world \<Rightarrow> (error + row list) \<times> world" where
  "search_for_results self search_id artifact_type artifact_value =
     handle_db_connection search_for_results_body self (search_id, artifact_type, artifact_value)"


text \<open>An optional string as the value bound to a statement parameter.\<close>

definition cell_of :: "string option \<Rightarrow> cell" where
  "cell_of x = (case x of None \<Rightarrow> CNull | Some s \<Rightarrow> CStr s)"

text \<open>
  The statements with bound parameters. The triple-quoted literals of the source span
  several indented lines; the texts here keep their words and drop the line breaks.
\<close>

definition insert_result_sql :: "db \<Rightarrow> string" where
  "insert_result_sql self =
     ''INSERT INTO '' @ cts_id self @ ''_results (search_id, artifact_type, artifact_value, hit, date_found) VALUES ($1, $2, $3, $4, $5) RETURNING search_id;''"

definition delete_active_sql :: "db \<Rightarrow> string" where
  "delete_active_sql self =
     ''DELETE FROM '' @ cts_id self @ ''_active_searches WHERE search_id = $1''"

definition insert_active_sql :: "db \<Rightarrow> string" where
  "insert_active_sql self =
     ''INSERT INTO '' @ cts_id self @ ''_active_searches (artifact_type, artifact_value) VALUES ($1, $2) RETURNING search_id;''"


text \<open>
  \<^verbatim>\<open>store_search_results(self, conn, search_id, artifact_type, artifact_value, hit)\<close>
  returns the \<^verbatim>\<open>search_id\<close> the insert returns.
\<close>

definition store_search_results_body ::
  "db \<Rightarrow> nat \<Rightarrow> string \<times> string option \<times> string option \<times> string \<Rightarrow> world \<Rightarrow> (error + cell) \<times> world" where
  "store_search_results_body self conn args w =
     (case args of (search_id, artifact_type, artifact_value, hit) \<Rightarrow>
        conn_fetchval self (insert_result_sql self)
          [CStr search_id, cell_of artifact_type, cell_of artifact_value, CStr hit, CStr (clock w)] w)"

definition store_search_results ::
  "db \<Rightarrow> string \<Rightarrow> string option \<Rightarrow> string option \<Rightarrow> string \<Rightarrow> world \<Rightarrow> (error + cell) \<times> world" where
  "store_search_results self search_id artifact_type artifact_value hit =
     handle_db_connection store_search_results_body self (search_id, artifact_type, artifact_value, hit)"

text \<open>
  \<^verbatim>\<open>remove_active_search(self, conn, search_id)\<close> returns the status string of
  the \<^verbatim>\<open>DELETE\<close> (asyncpg gives \<^verbatim>\<open>'DELETE n'\<close> for n rows deleted).
\<close>

definition remove_active_search_body :: "db \<Rightarrow> nat \<Rightarrow> string \<Rightarrow> world \<Rightarrow> (error + string) \<times> world" where
  "remove_active_search_body self conn search_id w =
     conn_execute self (delete_active_sql self) [CStr search_id] w"

definition remove_active_search :: "db \<Rightarrow> string \<Rightarrow> world \<Rightarrow> (error + string) \<times> world" where
  "remove_active_search self search_id = handle_db_connection remove_active_search_body self search_id"

text \<open>
  \<^verbatim>\<open>add_active_search(self, conn, artifact_type, artifact_value)\<close>. The decorator
  passes the caller's positional arguments on with \<^verbatim>\<open>*args\<close>, so the arguments
  are a list, and Python raises \<^verbatim>\<open>TypeError\<close> at the call unless there are exactly two.
\<close>

definition add_active_search_body :: "db \<Rightarrow> nat \<Rightarrow> string option list \<Rightarrow> world \<Rightarrow> (error + cell) \<times> world" where
  "add_active_search_body self conn args w =
     (case args of
        [artifact_type, artifact_value] \<Rightarrow>
          conn_fetchval self (insert_active_sql self) [cell_of artifact_type, cell_of artifact_value] w
      | _ \<Rightarrow> (Inl TypeError, w))"

definition add_active_search :: "db \<Rightarrow> string option list \<Rightarrow> world \<Rightarrow> (error + cell) \<times> world" where
  "add_active_search self args = handle_db_connection add_active_search_body self args"



section \<open>The document-oriented backend (util/mongo.py)\<close>

text \<open>
  The filters the code builds: \<^verbatim>\<open>{field: value}\<close>, and
  \<^verbatim>\<open>{'$and': [{field: {'$eq': value}}, ...]}\<close>. A value is a string or an
  \<^verbatim>\<open>ObjectId\<close>.
\<close>

datatype mvalue = MStr string | MObjectId string

datatype mfilter = FieldIs string mvalue | AndEq "(string \<times> string) list"

text \<open>
  An instance of \<^verbatim>\<open>Mongo\<close>: the configured CTS id and the server, a parameter as
  for the relational backend. \<open>find_one\<close> answers with a document or
  \<^verbatim>\<open>None\<close>, \<open>delete_many\<close> with its \<^verbatim>\<open>deleted_count\<close>,
  \<open>insert_one\<close> with \<^verbatim>\<open>acknowledged\<close> and \<^verbatim>\<open>inserted_id\<close>;
  the first argument of each is the collection's name.
\<close>

record mongo =
  m_cts_id :: string
  find_one :: "string \<Rightarrow> mfilter \<Rightarrow> string + row option"
  delete_many :: "string \<Rightarrow> mfilter \<Rightarrow> string + nat"
  insert_one :: "string \<Rightarrow> row \<Rightarrow> string + bool \<times> string"

definition active_searches_collection_name :: "mongo \<Rightarrow> string" where
  "active_searches_collection_name self = m_cts_id self @ ''_active_searches''"

definition results_collection_name :: "mongo \<Rightarrow> string" where
  "results_collection_name self = m_cts_id self @ ''_results''"

text \<open>
  \<^verbatim>\<open>ObjectId(s)\<close> for a string: bson accepts exactly 24 hexadecimal digits and
  raises \<^verbatim>\<open>InvalidId\<close> for anything else.
\<close>

definition hex_digit :: "char \<Rightarrow> bool" where
  "hex_digit c = (c \<in> set ''0123456789abcdefABCDEF'')"

definition ObjectId :: "string \<Rightarrow> error + mvalue" where
  "ObjectId s = (if length s = 24 \<and> list_all hex_digit s then Inr (MObjectId s) else Inl (InvalidId s))"

definition mongo_missing_params :: string where
  "mongo_missing_params = ''need to supply either search_id or artifact_type and artifact_value''"

definition artifact_filter :: "string \<Rightarrow> string \<Rightarrow> mfilter" where
  "artifact_filter artifact_type artifact_value =
     AndEq [(''artifact_value'', artifact_value), (''artifact_type'', artifact_type)]"

definition mongo_add_active_search :: "mongo \<Rightarrow> string \<Rightarrow> string \<Rightarrow> error + string" where
  "mongo_add_active_search self artifact_type artifact_value =
     (let document = [(''artifact_type'', CStr artifact_type), (''artifact_value'', CStr artifact_value)]
      in case store_error (insert_one self (active_searches_collection_name self) document) of
           Inl e \<Rightarrow> Inl e
         | Inr (acknowledged, inserted_id) \<Rightarrow>
             if acknowledged then Inr inserted_id else Inl InsertException)"

definition mongo_search_for_active_search ::
  "mongo \<Rightarrow> string option \<Rightarrow> string option \<Rightarrow> string option \<Rightarrow> error + row option" where
  "mongo_search_for_active_search self search_id artifact_type artifact_value =
     (if truthy search_id then
        (case ObjectId (fmt search_id) of
           Inl e \<Rightarrow> Inl e
         | Inr oid \<Rightarrow> store_error (find_one self (active_searches_collection_name self) (FieldIs ''_id'' oid)))
      else if truthy artifact_type \<and> truthy artifact_value then
        store_error (find_one self (active_searches_collection_name self)
          (artifact_filter (fmt artifact_type) (fmt artifact_value)))
      else Inl (ValueError mongo_missing_params))"

definition mongo_remove_active_search :: "mongo \<Rightarrow> string \<Rightarrow> error + bool" where
  "mongo_remove_active_search self search_id =
     (case ObjectId search_id of
        Inl e \<Rightarrow> Inl e
      | Inr oid \<Rightarrow>
          (case store_error (delete_many self (active_searches_collection_name self) (FieldIs ''_id'' oid)) of
             Inl e \<Rightarrow> Inl e
           | Inr deleted_count \<Rightarrow>
               if deleted_count = 1 then Inr True
               else if deleted_count > 1 then Inl (DeletedMultipleActiveSearches search_id)
               else Inl (ActiveSearchNotFound search_id)))"

definition mongo_search_for_results ::
  "mongo \<Rightarrow> string option \<Rightarrow> string option \<Rightarrow> string option \<Rightarrow> error + row option" where
  "mongo_search_for_results self search_id artifact_type artifact_value =
     (if truthy search_id then
        store_error (find_one self (results_collection_name self) (FieldIs ''search_id'' (MStr (fmt search_id))))
      else if truthy artifact_type \<and> truthy artifact_value then
        store_error (find_one self (results_collection_name self)
          (artifact_filter (fmt artifact_type) (fmt artifact_value)))
      else Inl (ValueError mongo_missing_params))"

definition mongo_store_search_results ::
  "mongo \<Rightarrow> string \<Rightarrow> string \<Rightarrow> string \<Rightarrow> string \<Rightarrow> error + string" where
  "mongo_store_search_results self search_id artifact_type artifact_value hit =
     (let document = [(''search_id'', CStr search_id), (''artifact_type'', CStr artifact_type),
                      (''artifact_value'', CStr artifact_value), (''hit'', CStr hit)]
      in case store_error (insert_one self (results_collection_name self) document) of
           Inl e \<Rightarrow> Inl e
         | Inr (acknowledged, inserted_id) \<Rightarrow>
             if acknowledged then Inr inserted_id else Inl InsertException)"

section \<open>The orchestrator (async_cts.py)\<close>

text \<open>\<^verbatim>\<open>str(n)\<close> for an integer, and \<^verbatim>\<open>f"{x}"\<close> for a cell.\<close>

fun dec :: "nat \<Rightarrow> string" where
  "dec n = (if n < 10 then [char_of (48 + n)] else dec (n div 10) @ [char_of (48 + n mod 10)])"

definition py_str :: "cell \<Rightarrow> string" where
  "py_str c =
     (case c of
        CNull \<Rightarrow> ''None''
      | CInt i \<Rightarrow> (if i < 0 then ''-'' @ dec (nat (- i)) else dec (nat i))
      | CStr s \<Rightarrow> s)"

text \<open>
  A payload (what the searcher returns, what the \<^verbatim>\<open>hit\<close> column holds) is kept as its
  JSON text, so \<^verbatim>\<open>json.dumps\<close> of a payload is that text. \<^verbatim>\<open>json.loads\<close> raises
  \<^verbatim>\<open>TypeError\<close> for anything that is not a string; the strings it is given here are
  read from a column of type JSON, and are taken to parse.
\<close>

type_synonym payload = string

definition json_dumps :: "payload \<Rightarrow> string" where
  "json_dumps p = p"

definition json_loads :: "cell \<Rightarrow> error + payload" where
  "json_loads c = (case c of CStr s \<Rightarrow> Inr s | _ \<Rightarrow> Inl TypeError)"

text \<open>\<^verbatim>\<open>web.Response(text=...)\<close> and \<^verbatim>\<open>web.json_response(...)\<close>.\<close>

datatype response = TextResponse string | JsonResponse payload

text \<open>\<^verbatim>\<open>os.unlink(path)\<close> removes the file, and raises when there is none.\<close>

definition unlink :: "string \<Rightarrow> world \<Rightarrow> error option \<times> world" where
  "unlink p w =
     (if p \<in> set (files w) then (None, w\<lparr>files := removeAll p (files w)\<rparr>)
      else (Some (FileNotFoundError p), w))"

text \<open>
  A request after parsing (which is not modelled): \<^verbatim>\<open>artifact_payload.get('type')\<close>,
  \<^verbatim>\<open>artifact_payload.get('value')\<close>, and the file payload, \<^verbatim>\<open>None\<close> for a JSON
  request. The file payload is a dictionary with two keys, so it is truthy whenever it
  is there.
\<close>

record request =
  payload_type :: "string option"
  payload_value :: "string option"
  upload :: "file_payload option"

text \<open>
  An instance of \<^verbatim>\<open>AsyncCTS\<close>: the searcher, an opaque capability that returns a
  payload or raises (\<open>Inl\<close>, with the message); the \<^verbatim>\<open>DB()\<close> the handler
  constructs from the configuration; and the string \<^verbatim>\<open>str(uuid.uuid4())\<close> gives.
\<close>

record async_cts =
  searcher :: "string option \<Rightarrow> string option \<Rightarrow> file_payload option \<Rightarrow> string + payload"
  database :: db
  uuid4 :: string

text \<open>
  \<^verbatim>\<open>search_complete_handler(future, search_id, artifact_type, artifact_value,
  file_payload, db)\<close>, the done-callback of the searcher task. \<open>future\<close> is the
  outcome of the task; \<^verbatim>\<open>future.result()\<close> raises what the task raised. The result
  is the exception that leaves the callback, if any.
\<close>

definition search_complete_handler ::
  "string + payload \<Rightarrow> string \<Rightarrow> string option \<Rightarrow> string option \<Rightarrow> file_payload option \<Rightarrow> world
     \<Rightarrow> error option \<times> world" where
  "search_complete_handler future search_id artifact_type artifact_value file_payload w =
     (let w1 = w\<lparr>pending := pending w @ [RemoveActiveSearch search_id]\<rparr>
      in case future of
           Inl m \<Rightarrow> (Some (SearcherError m), w1)
         | Inr result \<Rightarrow>
             (let w2 = w1\<lparr>pending := pending w1 @
                         [StoreSearchResults search_id artifact_type artifact_value (json_dumps result)]\<rparr>
              in case file_payload of
                   None \<Rightarrow> (None, w2)
                 | Some f \<Rightarrow> unlink (path f) w2))"

text \<open>
  \<^verbatim>\<open>scanArtifactHandler\<close>. \<^verbatim>\<open>asyncio.gather\<close> runs both lookups; they are
  taken in the order written, and the first that raised is what \<^verbatim>\<open>gather\<close> raises.
  The result is the exception that leaves the handler, or what it returns:
  a response, or \<^verbatim>\<open>None\<close> when the end of the body is reached.
\<close>

definition launch_text :: string where
  "launch_text = ''LAUNCHING SEARCH SMELL U L8R''"

definition scanArtifactHandler :: "async_cts \<Rightarrow> request \<Rightarrow> world \<Rightarrow> (error + response option) \<times> world" where
  "scanArtifactHandler self request w =
     (let db = database self;
          file_payload = upload request;
          (r1, w1) = search_for_results db None (payload_type request) (payload_value request) w;
          (r2, w2) = search_for_active_search db None (payload_type request) (payload_value request) w1
      in case r1 of
           Inl e \<Rightarrow> (Inl e, w2)
         | Inr past_results \<Rightarrow>
        (case r2 of
           Inl e \<Rightarrow> (Inl e, w2)
         | Inr active_searches \<Rightarrow>
             if length past_results = 0 \<and> length active_searches = 0 then
               (let search_id = uuid4 self;
                    w3 = w2\<lparr>pending := pending w2 @
                           [SearcherTask (payload_type request) (payload_value request) file_payload search_id]\<rparr>;
                    (r3, w4) = add_active_search db
                                 [Some search_id, payload_type request, payload_value request] w3
                in case r3 of
                     Inl e \<Rightarrow> (Inl e, w4)
                   | Inr _ \<Rightarrow> (Inr (Some (TextResponse launch_text)), w4))
             else if length active_searches = 1 then
               (Inr (Some (TextResponse (''active search '' @ py_str (get (hd active_searches) ''search_id'')))), w2)
             else if length past_results = 1 then
               (case json_loads (get (hd past_results) ''hit'') of
                  Inl e \<Rightarrow> (Inl e, w2)
                | Inr hit \<Rightarrow> (Inr (Some (JsonResponse hit)), w2))
             else
               (case file_payload of
                  None \<Rightarrow> (Inr None, w2)
                | Some f \<Rightarrow>
                    (case unlink (path f) w2 of
                       (Some e, w3) \<Rightarrow> (Inl e, w3)
                     | (None, w3) \<Rightarrow> (Inr None, w3)))))"

text \<open>
  One turn of the event loop on a task. A searcher task runs the searcher and then its
  done-callback; an exception that leaves the callback is logged by the loop and goes
  no further. The two database tasks run the coroutine they were created from, and
  nobody reads their result.
\<close>

definition run_task :: "async_cts \<Rightarrow> task \<Rightarrow> world \<Rightarrow> world" where
  "run_task self t w =
     (case t of
        SearcherTask artifact_type artifact_value file_payload search_id \<Rightarrow>
          snd (search_complete_handler (searcher self artifact_type artifact_value file_payload)
                 search_id artifact_type artifact_value file_payload w)
      | RemoveActiveSearch search_id \<Rightarrow> snd (remove_active_search (database self) search_id w)
      | StoreSearchResults search_id artifact_type artifact_value hit \<Rightarrow>
          snd (store_search_results (database self) search_id artifact_type artifact_value hit w))"

section \<open>Reading the answers\<close>

text \<open>
  The exception a lookup raises when it was given nothing to look for: a plain
  \<^verbatim>\<open>Exception\<close> in the relational backend, a \<^verbatim>\<open>ValueError\<close> in the
  document-oriented one, each with its message.
\<close>

definition invalid_query :: "error \<Rightarrow> bool" where
  "invalid_query e = (e = PyException db_missing_params \<or> e = ValueError mongo_missing_params)"

definition failed_with :: "(error \<Rightarrow> bool) \<Rightarrow> error + 'a \<Rightarrow> bool" where
  "failed_with P r = (case r of Inl e \<Rightarrow> P e | Inr _ \<Rightarrow> False)"



section \<open>Concrete inputs\<close>

text \<open>A world with nothing in it, and servers that connect and find nothing.\<close>

definition w0 :: world where
  "w0 = \<lparr>files = [], open_conns = [], next_conn = 0, issued = [], pending = [],
          clock = ''2020-01-01 00:00:00''\<rparr>"

definition quiet_db :: db where
  "quiet_db = \<lparr>cts_id = ''cts'', connect_error = None, fetch = (\<lambda>q args. Inr []),
      fetchval = (\<lambda>q args. Inr (CInt 1)), execute = (\<lambda>q args. Inr ''DELETE 0'')\<rparr>"

definition quiet_mongo :: mongo where
  "quiet_mongo = \<lparr>m_cts_id = ''cts'', find_one = (\<lambda>c f. Inr None), delete_many = (\<lambda>c f. Inr 0),
      insert_one = (\<lambda>c d. Inr (True, ''5f1d7f3a9c2b4e0012345678''))\<rparr>"

text \<open>
  The artifact \<^verbatim>\<open>{"type": "uri", "value": "https://example.com"}\<close>, the two statements
  the relational lookups send for it when the CTS id is \<^verbatim>\<open>cts\<close>, and rows for it.
\<close>

definition example_results_sql :: string where
  "example_results_sql =
     ''SELECT * FROM cts_results WHERE artifact_type = 'uri' AND artifact_value = 'https://example.com';''"

definition example_active_sql :: string where
  "example_active_sql =
     ''SELECT * FROM cts_active_searches WHERE artifact_type = 'uri' AND artifact_value = 'https://example.com';''"

definition result_row :: "int \<Rightarrow> string \<Rightarrow> row" where
  "result_row n hit = [(''search_id'', CInt n), (''artifact_type'', CStr ''uri''),
      (''artifact_value'', CStr ''https://example.com''), (''date_found'', CStr ''2020-01-01 00:00:00''),
      (''hit'', CStr hit)]"

definition active_row :: "int \<Rightarrow> row" where
  "active_row n = [(''search_id'', CInt n), (''artifact_type'', CStr ''uri''),
      (''artifact_value'', CStr ''https://example.com'')]"

text \<open>
  Two servers holding the same records for that artifact, \<open>past\<close> in the results and
  \<open>active\<close> in the active searches, and nothing else.
\<close>

definition stub_db :: "row list \<Rightarrow> row list \<Rightarrow> db" where
  "stub_db past active =
     \<lparr>cts_id = ''cts'', connect_error = None,
      fetch = (\<lambda>q args. if q = example_results_sql then Inr past
                         else if q = example_active_sql then Inr active else Inr []),
      fetchval = (\<lambda>q args. Inr (CInt 1)), execute = (\<lambda>q args. Inr ''DELETE 1'')\<rparr>"



text \<open>Requests for the artifact, without and with an uploaded file, and the file on disk.\<close>

definition example_request :: request where
  "example_request =
     \<lparr>payload_type = Some ''uri'', payload_value = Some ''https://example.com'', upload = None\<rparr>"

definition example_upload :: file_payload where
  "example_upload = \<lparr>path = ''/tmp/tmpk3v9x2'', content_transfer_encoding = Some ''binary''\<rparr>"

definition upload_request :: request where
  "upload_request = example_request\<lparr>upload := Some example_upload\<rparr>"

definition w_upload :: world where
  "w_upload = w0\<lparr>files := [''/tmp/tmpk3v9x2'']\<rparr>"

definition example_uuid :: string where
  "example_uuid = ''1b9d6bcd-bbfd-4b2d-9b5d-ab8dfbbd4bed''"

text \<open>An orchestrator whose searcher finds \<^verbatim>\<open>[5]\<close>, and one whose searcher raises.\<close>

definition example_cts :: "db \<Rightarrow> async_cts" where
  "example_cts d = \<lparr>searcher = (\<lambda>t v f. Inr ''[5]''), database = d, uuid4 = example_uuid\<rparr>"

definition failing_cts :: "db \<Rightarrow> async_cts" where
  "failing_cts d = \<lparr>searcher = (\<lambda>t v f. Inl ''timed out''), database = d, uuid4 = example_uuid\<rparr>"

section \<open>The connection decorator\<close>

text \<open>
  C9. Whenever the connection could be opened, the call made through
  \<open>handle_db_connection\<close> gives what the wrapped function gave, be it a value
  or the exception it raised, and the connection opened for the call (open while the
  function ran) is closed when the call is over. Nothing is asked of the wrapped function.
\<close>

theorem handle_db_connection_closes:
  assumes "connect_error self = None"
  shows "fst (handle_db_connection func self args w) = fst (func self (next_conn w) args (open_conn w))
     \<and> next_conn w \<in> set (open_conns (open_conn w))
     \<and> next_conn w \<notin> set (open_conns (snd (handle_db_connection func self args w)))"
  using assms
  by (simp add: handle_db_connection_def open_conn_def close_conn_def split_def Let_def)

text \<open>
  At a wrapped function that raises: \<open>add_active_search\<close> called with three
  arguments.
\<close>

theorem handle_db_connection_closes_witness:
  "connect_error quiet_db = None
   \<and> fst (handle_db_connection add_active_search_body quiet_db
            [Some ''id'', Some ''uri'', Some ''x''] w0) = Inl TypeError
   \<and> 0 \<notin> set (open_conns (snd (handle_db_connection add_active_search_body quiet_db
            [Some ''id'', Some ''uri'', Some ''x''] w0)))"
proof -
  have h: "connect_error quiet_db = None" by (simp add: quiet_db_def)
  have n: "next_conn w0 = 0" by (simp add: w0_def)
  show ?thesis
    using h n handle_db_connection_closes
      [OF h, of add_active_search_body "[Some ''id'', Some ''uri'', Some ''x'']" w0]
    by (simp add: add_active_search_body_def)
qed

section \<open>The lookups\<close>

lemma truthy_None: "\<not> truthy None"
  by (simp add: truthy_def)

lemma store_error_not_invalid: "\<not> failed_with invalid_query (store_error r)"
  by (cases r) (simp_all add: store_error_def failed_with_def invalid_query_def)

lemma ObjectId_not_invalid:
  "\<not> failed_with invalid_query (case ObjectId s of Inl e \<Rightarrow> Inl e | Inr oid \<Rightarrow> store_error (f oid))"
  by (simp add: ObjectId_def store_error_not_invalid) (simp add: failed_with_def invalid_query_def)

text \<open>What a relational lookup gives once the connection is there.\<close>

lemma fst_search_for_results:
  "connect_error self = None \<Longrightarrow>
   fst (search_for_results self search_id artifact_type artifact_value w) =
     (if \<not> truthy search_id \<and> (\<not> truthy artifact_type \<or> \<not> truthy artifact_value)
      then Inl (PyException db_missing_params)
      else if truthy search_id then store_error (fetch self (results_by_id_sql self search_id) [])
      else store_error (fetch self (results_by_artifact_sql self artifact_type artifact_value) []))"
  by (simp add: search_for_results_def handle_db_connection_def search_for_results_body_def
      conn_fetch_def split_def Let_def)

lemma fst_search_for_active_search:
  "connect_error self = None \<Longrightarrow>
   fst (search_for_active_search self search_id artifact_type artifact_value w) =
     (if \<not> truthy search_id \<and> (\<not> truthy artifact_type \<or> \<not> truthy artifact_value)
      then Inl (PyException db_missing_params)
      else if truthy search_id then store_error (fetch self (active_by_id_sql self search_id) [])
      else store_error (fetch self (active_by_artifact_sql self artifact_type artifact_value) []))"
  by (simp add: search_for_active_search_def handle_db_connection_def search_for_active_search_body_def
      conn_fetch_def split_def Let_def)

text \<open>The statements built for the example artifact are the ones written out above.\<close>

lemma example_results_sql_eq:
  "results_by_artifact_sql (stub_db past active) (Some ''uri'') (Some ''https://example.com'')
     = example_results_sql"
  by (simp add: results_by_artifact_sql_def stub_db_def example_results_sql_def sq_def fmt_def)

lemma example_active_sql_eq:
  "active_by_artifact_sql (stub_db past active) (Some ''uri'') (Some ''https://example.com'')
     = example_active_sql"
  by (simp add: active_by_artifact_sql_def stub_db_def example_active_sql_def sq_def fmt_def)

lemma example_sql_neq: "example_active_sql \<noteq> example_results_sql"
  by (simp add: example_active_sql_def example_results_sql_def)

lemma stub_db_simps:
  "connect_error (stub_db past active) = None"
  "fetch (stub_db past active) example_results_sql args = Inr past"
  "fetch (stub_db past active) example_active_sql args = Inr active"
  "cts_id (stub_db past active) = ''cts''"
  by (simp_all add: stub_db_def example_sql_neq)

text \<open>
  C6, as the code has it. Each of the four lookups raises its invalid-query exception
  exactly when it was given neither key: no truthy \<open>search_id\<close>, and an
  \<open>artifact_type\<close> or an \<open>artifact_value\<close> that is missing or empty. (For the
  relational backend the connection has to be there first: the check sits behind it.)
  So a call with both keys does not fail; the \<open>search_id\<close> is used.
\<close>

theorem lookup_invalid_query_iff:
  assumes "connect_error self = None"
  shows "failed_with invalid_query (fst (search_for_active_search self search_id artifact_type artifact_value w))
           = (\<not> truthy search_id \<and> (\<not> truthy artifact_type \<or> \<not> truthy artifact_value))
       \<and> failed_with invalid_query (fst (search_for_results self search_id artifact_type artifact_value w))
           = (\<not> truthy search_id \<and> (\<not> truthy artifact_type \<or> \<not> truthy artifact_value))
       \<and> failed_with invalid_query (mongo_search_for_active_search m search_id artifact_type artifact_value)
           = (\<not> truthy search_id \<and> (\<not> truthy artifact_type \<or> \<not> truthy artifact_value))
       \<and> failed_with invalid_query (mongo_search_for_results m search_id artifact_type artifact_value)
           = (\<not> truthy search_id \<and> (\<not> truthy artifact_type \<or> \<not> truthy artifact_value))"
proof -
  have a: "failed_with invalid_query (Inl (PyException db_missing_params))"
    and b: "failed_with invalid_query (Inl (ValueError mongo_missing_params))"
    by (simp_all add: failed_with_def invalid_query_def)
  have 1: "failed_with invalid_query (fst (search_for_active_search self search_id artifact_type artifact_value w))
           = (\<not> truthy search_id \<and> (\<not> truthy artifact_type \<or> \<not> truthy artifact_value))"
    using assms by (simp add: a fst_search_for_active_search store_error_not_invalid)
  have 2: "failed_with invalid_query (fst (search_for_results self search_id artifact_type artifact_value w))
           = (\<not> truthy search_id \<and> (\<not> truthy artifact_type \<or> \<not> truthy artifact_value))"
    using assms by (simp add: a fst_search_for_results store_error_not_invalid)
  have 3: "failed_with invalid_query (mongo_search_for_active_search m search_id artifact_type artifact_value)
           = (\<not> truthy search_id \<and> (\<not> truthy artifact_type \<or> \<not> truthy artifact_value))"
    by (simp add: b mongo_search_for_active_search_def store_error_not_invalid ObjectId_not_invalid)
  have 4: "failed_with invalid_query (mongo_search_for_results m search_id artifact_type artifact_value)
           = (\<not> truthy search_id \<and> (\<not> truthy artifact_type \<or> \<not> truthy artifact_value))"
    by (simp add: b mongo_search_for_results_def store_error_not_invalid)
  from 1 2 3 4 show ?thesis by blast
qed

text \<open>
  C6 at four calls: no key at all, an empty \<open>artifact_value\<close>, an empty
  \<open>search_id\<close> with half a fingerprint (all three fail), and a fingerprint alone
  (which does not).
\<close>

theorem lookup_invalid_query_iff_witness:
  "connect_error quiet_db = None
   \<and> failed_with invalid_query (fst (search_for_active_search quiet_db None None None w0))
   \<and> failed_with invalid_query (fst (search_for_results quiet_db None (Some ''uri'') (Some []) w0))
   \<and> failed_with invalid_query (mongo_search_for_active_search quiet_mongo (Some []) None (Some ''x''))
   \<and> \<not> failed_with invalid_query (mongo_search_for_results quiet_mongo None (Some ''uri'') (Some ''x''))"
  using lookup_invalid_query_iff [of quiet_db None None None w0 quiet_mongo]
        lookup_invalid_query_iff [of quiet_db None "Some ''uri''" "Some []" w0 quiet_mongo]
        lookup_invalid_query_iff [of quiet_db "Some []" None "Some ''x''" w0 quiet_mongo]
        lookup_invalid_query_iff [of quiet_db None "Some ''uri''" "Some ''x''" w0 quiet_mongo]
  by (simp add: quiet_db_def truthy_def)

text \<open>
  C6 as the specification states it fails: given a \<open>search_id\<close> and a fingerprint
  together, the relational lookup of active searches returns the rows the server
  found (none here) and the document-oriented lookup of results returns
  \<^verbatim>\<open>None\<close>; neither raises.
\<close>

theorem lookup_both_keys_counterexample:
  "fst (search_for_active_search quiet_db (Some ''7'') (Some ''uri'') (Some ''https://example.com'') w0)
     = Inr []
   \<and> mongo_search_for_results quiet_mongo (Some ''7'') (Some ''uri'') (Some ''https://example.com'')
     = Inr None"
  by (simp add: fst_search_for_active_search quiet_db_def truthy_def store_error_def
       mongo_search_for_results_def quiet_mongo_def)

text \<open>
  The relational lookups paste their arguments into the statement text, so two
  different fingerprints can give one and the same text.
\<close>

lemma results_body_collision:
  "search_for_results_body self conn (None, Some ''a'', Some ''b' AND artifact_value = 'c'') w
     = search_for_results_body self conn (None, Some ''a' AND artifact_value = 'b'', Some ''c'') w"
  by (simp add: search_for_results_body_def truthy_def results_by_artifact_sql_def sq_def fmt_def)

lemma active_body_collision:
  "search_for_active_search_body self conn (None, Some ''a'', Some ''b' AND artifact_value = 'c'') w
     = search_for_active_search_body self conn (None, Some ''a' AND artifact_value = 'b'', Some ''c'') w"
  by (simp add: search_for_active_search_body_def truthy_def active_by_artifact_sql_def sq_def fmt_def)

text \<open>
  C8 fails on the code. The fingerprint with type \<^verbatim>\<open>a\<close> and value
  \<^verbatim>\<open>b' AND artifact_value = 'c\<close>, and the fingerprint with type
  \<^verbatim>\<open>a' AND artifact_value = 'b\<close> and value \<^verbatim>\<open>c\<close>, reach the server as the
  same statement. Whatever the server is, both lookups get the same answer and leave the
  same world behind; a table holding a record with the first fingerprint holds none with
  the second, so the answer cannot be the records equal to the input for both.
\<close>

theorem lookup_sql_collision:
  "search_for_results self None (Some ''a'') (Some ''b' AND artifact_value = 'c'') w
     = search_for_results self None (Some ''a' AND artifact_value = 'b'') (Some ''c'') w
   \<and> search_for_active_search self None (Some ''a'') (Some ''b' AND artifact_value = 'c'') w
     = search_for_active_search self None (Some ''a' AND artifact_value = 'b'') (Some ''c'') w"
  by (cases "connect_error self")
     (simp_all add: search_for_results_def search_for_active_search_def handle_db_connection_def
        results_body_collision active_body_collision)

section \<open>Removing an active search\<close>

text \<open>
  The document-oriented backend looks at the count: one deleted document is success,
  more is \<open>DeletedMultipleActiveSearches\<close>, none is \<open>ActiveSearchNotFound\<close>.
\<close>

lemma mongo_remove_active_search_checks:
  assumes "ObjectId search_id = Inr oid"
    and "delete_many m (active_searches_collection_name m) (FieldIs ''_id'' oid) = Inr n"
  shows "mongo_remove_active_search m search_id =
     (if n = 1 then Inr True else if n > 1 then Inl (DeletedMultipleActiveSearches search_id)
      else Inl (ActiveSearchNotFound search_id))"
  using assms by (simp add: mongo_remove_active_search_def store_error_def)

text \<open>The relational backend hands back the status of the statement, whatever it is.\<close>

lemma fst_remove_active_search:
  "fst (remove_active_search self search_id w) =
     (case connect_error self of
        Some m \<Rightarrow> Inl (StoreError m)
      | None \<Rightarrow> store_error (execute self (delete_active_sql self) [CStr search_id]))"
  by (cases "connect_error self")
     (simp_all add: remove_active_search_def handle_db_connection_def remove_active_search_body_def
        conn_execute_def split_def Let_def)

text \<open>
  C5 fails on the code, for the relational backend. The server deletes no row and says
  \<^verbatim>\<open>DELETE 0\<close>; \<open>remove_active_search\<close> returns that string and raises nothing.
\<close>

theorem remove_active_search_returns_status:
  "fst (remove_active_search quiet_db ''7'' w0) = Inr ''DELETE 0''"
  by (simp add: remove_active_search_def handle_db_connection_def remove_active_search_body_def
        conn_execute_def quiet_db_def store_error_def split_def Let_def)

section \<open>The tables of the CTS\<close>




section \<open>The two backends side by side\<close>




section \<open>The decision of the orchestrator\<close>

lemma py_str_7: "py_str (CInt 7) = ''7''"
  by code_simp

text \<open>
  C1, as the code has it. The connection is there, the request names a type and a value,
  and the store answers the lookup of results with exactly one record, whose \<^verbatim>\<open>hit\<close>
  is a string. Then the handler responds with that hit, unless the store answers the
  lookup of active searches with exactly one record: that one goes first, and the
  response is the reference to the active search.
\<close>

theorem stored_result_returned:
  assumes "connect_error (database self) = None"
    and "truthy (payload_type request)" and "truthy (payload_value request)"
    and "fetch (database self)
           (results_by_artifact_sql (database self) (payload_type request) (payload_value request)) []
         = Inr [r]"
    and "fetch (database self)
           (active_by_artifact_sql (database self) (payload_type request) (payload_value request)) []
         = Inr active"
    and "get r ''hit'' = CStr hit"
  shows "fst (scanArtifactHandler self request w) =
           (if length active = 1
            then Inr (Some (TextResponse (''active search '' @ py_str (get (hd active) ''search_id''))))
            else Inr (Some (JsonResponse hit)))"
  using assms
  by (simp add: scanArtifactHandler_def split_def Let_def fst_search_for_results
        fst_search_for_active_search store_error_def json_loads_def truthy_None)

text \<open>
  C1 on one stored result for the example artifact, with no active search and with two.
\<close>

theorem stored_result_returned_witness:
  "fetch (stub_db [result_row 3 ''[5]''] []) example_results_sql [] = Inr [result_row 3 ''[5]'']
   \<and> fetch (stub_db [result_row 3 ''[5]''] []) example_active_sql [] = Inr []
   \<and> fst (scanArtifactHandler (example_cts (stub_db [result_row 3 ''[5]''] [])) example_request w0)
       = Inr (Some (JsonResponse ''[5]''))
   \<and> fst (scanArtifactHandler
             (example_cts (stub_db [result_row 3 ''[5]''] [active_row 7, active_row 8]))
             example_request w0)
       = Inr (Some (JsonResponse ''[5]''))"
  using stored_result_returned
          [of "example_cts (stub_db [result_row 3 ''[5]''] [])" example_request
              "result_row 3 ''[5]''" "[]" "''[5]''" w0]
        stored_result_returned
          [of "example_cts (stub_db [result_row 3 ''[5]''] [active_row 7, active_row 8])"
              example_request "result_row 3 ''[5]''" "[active_row 7, active_row 8]" "''[5]''" w0]
  by (simp add: example_cts_def example_request_def stub_db_simps example_results_sql_eq
        example_active_sql_eq truthy_def get_def result_row_def)

text \<open>
  C1 as the specification states it fails twice. With one stored result and one active
  search, the handler answers with the active search, not with the stored hit: the
  branch for one active search is tested first. With two stored results and no active
  search, no branch is taken and the handler returns \<^verbatim>\<open>None\<close>, no response at all.
\<close>

theorem decision_table_counterexample:
  "fst (scanArtifactHandler (example_cts (stub_db [result_row 3 ''[5]''] [active_row 7]))
          example_request w0)
     = Inr (Some (TextResponse ''active search 7''))
   \<and> fst (scanArtifactHandler (example_cts (stub_db [result_row 3 ''[5]'', result_row 4 ''[6]''] []))
          example_request w0)
     = Inr None"
  by (simp add: scanArtifactHandler_def split_def Let_def fst_search_for_results
        fst_search_for_active_search store_error_def example_cts_def example_request_def
        stub_db_simps example_results_sql_eq example_active_sql_eq truthy_def active_row_def
        get_def py_str_7)

section \<open>Starting a new search\<close>

text \<open>
  C2 fails on the code. Nothing is stored and nothing is running for the example
  artifact. The handler creates the searcher task first, with a search id it made up
  itself (\<^verbatim>\<open>uuid4\<close>), and then calls \<open>add_active_search\<close> with three
  arguments, which takes two: \<^verbatim>\<open>TypeError\<close>. The exception leaves the handler; the
  two lookups are the only statements the database ever saw, so no active search was
  registered and no id came back from an insert; the searcher task stays scheduled.
\<close>

theorem start_new_raises_type_error:
  "scanArtifactHandler (example_cts (stub_db [] [])) example_request w0 =
     (Inl TypeError,
      w0\<lparr>next_conn := 3,
         issued := [(example_results_sql, []), (example_active_sql, [])],
         pending := [SearcherTask (Some ''uri'') (Some ''https://example.com'') None example_uuid]\<rparr>)"
  by (simp add: scanArtifactHandler_def split_def Let_def search_for_results_def
        search_for_active_search_def add_active_search_def handle_db_connection_def
        search_for_results_body_def search_for_active_search_body_def add_active_search_body_def
        conn_fetch_def open_conn_def close_conn_def store_error_def
        example_cts_def example_request_def stub_db_simps example_results_sql_eq
        example_active_sql_eq truthy_def w0_def)

section \<open>The completion of a search\<close>



section \<open>The uploaded file\<close>

text \<open>When the searcher returned, the callback does delete the file, once.\<close>

lemma completed_search_unlinks:
  assumes "path f \<in> set (files w)"
  shows "search_complete_handler (Inr result) search_id artifact_type artifact_value (Some f) w =
     (None, w\<lparr>pending := pending w @ [RemoveActiveSearch search_id,
                   StoreSearchResults search_id artifact_type artifact_value (json_dumps result)],
              files := removeAll (path f) (files w)\<rparr>)"
  using assms by (simp add: search_complete_handler_def Let_def unlink_def)

text \<open>
  C4 fails on the code. A request with an uploaded file, for an artifact with one stored
  result: the handler responds with the stored hit and returns before the
  \<^verbatim>\<open>os.unlink\<close> at its end; the file is still there and no task is left that could
  delete it. And on the path of a new search whose searcher fails, the task and its
  callback run and the file is still there.
\<close>

theorem upload_left_behind:
  "scanArtifactHandler (example_cts (stub_db [result_row 3 ''[5]''] [])) upload_request w_upload =
     (Inr (Some (JsonResponse ''[5]'')),
      w_upload\<lparr>next_conn := 2, issued := [(example_results_sql, []), (example_active_sql, [])]\<rparr>)
   \<and> files (run_task (failing_cts (stub_db [] []))
               (SearcherTask (Some ''uri'') (Some ''https://example.com'') (Some example_upload)
                  example_uuid)
               w_upload) = [''/tmp/tmpk3v9x2'']"
  by (simp add: scanArtifactHandler_def split_def Let_def search_for_results_def
        search_for_active_search_def handle_db_connection_def
        search_for_results_body_def search_for_active_search_body_def
        conn_fetch_def open_conn_def close_conn_def store_error_def json_loads_def get_def
        result_row_def example_cts_def upload_request_def example_request_def stub_db_simps
        example_results_sql_eq example_active_sql_eq truthy_def w_upload_def w0_def run_task_def
        failing_cts_def search_complete_handler_def)

end
